theory Spec2Isabelle
  imports Complex_Main "HOL-Library.Sublist"
begin

section \<open>Audit chain (soul\_architecture/audit\_chain.py)\<close>

text \<open>
  Python strings are modelled as \<open>string\<close>; a \<open>datetime\<close> is carried by its
  \<open>isoformat()\<close> text, which is the only view of it that the ledger code takes.
  The digest \<open>sha256(json.dumps(data, sort_keys=True, default=str))\<close> is library code:
  it is a parameter \<open>dg\<close> of every operation, applied to the seven values that
  \<open>compute_hash\<close> puts into its dictionary.
\<close>

datatype AuditLevel = DEBUG | INFO | WARNING | ERROR | CRITICAL_LEVEL

datatype AuditEventType =
    MODE_DECISION | SECURITY_CHECK | DATA_OVERWRITE | EXECUTION_START
  | EXECUTION_END | USER_CONFIRMATION | POLICY_VIOLATION

fun event_type_value :: "AuditEventType \<Rightarrow> string" where
  "event_type_value MODE_DECISION = ''mode_decision''"
| "event_type_value SECURITY_CHECK = ''security_check''"
| "event_type_value DATA_OVERWRITE = ''data_overwrite''"
| "event_type_value EXECUTION_START = ''execution_start''"
| "event_type_value EXECUTION_END = ''execution_end''"
| "event_type_value USER_CONFIRMATION = ''user_confirmation''"
| "event_type_value POLICY_VIOLATION = ''policy_violation''"

record AuditEntry =
  entry_id :: string
  timestamp :: string
  level :: AuditLevel
  event_type :: AuditEventType
  session_id :: string
  request_id :: string
  action :: string
  description :: string
  user_id :: "string option"
  tenant_id :: "string option"
  details :: "(string \<times> string) list"
  decision :: "string option"
  reason :: "string option"
  confidence :: "rat option"
  success :: bool
  error_message :: "string option"
  duration_ms :: "rat option"
  entry_hash :: "string option"
  previous_hash :: "string option"

text \<open>The dictionary that \<open>compute_hash\<close> serialises, in the order it is written.\<close>

record hash_data =
  hd_entry_id :: string
  hd_timestamp :: string
  hd_event_type :: string
  hd_action :: string
  hd_session_id :: string
  hd_request_id :: string
  hd_previous_hash :: "string option"

type_synonym digest = "hash_data \<Rightarrow> string"

definition compute_hash :: "digest \<Rightarrow> AuditEntry \<Rightarrow> string" where
  "compute_hash dg e =
     dg \<lparr> hd_entry_id = entry_id e,
          hd_timestamp = timestamp e,
          hd_event_type = event_type_value (event_type e),
          hd_action = action e,
          hd_session_id = session_id e,
          hd_request_id = request_id e,
          hd_previous_hash = previous_hash e \<rparr>"

definition finalize :: "digest \<Rightarrow> AuditEntry \<Rightarrow> string option \<Rightarrow> AuditEntry" where
  "finalize dg e prev =
     (let e1 = e\<lparr>previous_hash := prev\<rparr>
      in e1\<lparr>entry_hash := Some (compute_hash dg e1)\<rparr>)"

record AuditChainStatus =
  total_entries :: nat
  valid :: bool
  broken_at :: "string option"
  first_timestamp :: "string option"
  last_timestamp :: "string option"

text \<open>
  The ledger. The two secondary indices of the source hold references to the entry
  objects of \<open>_entries\<close>; here they hold the positions of those entries in the ledger.
  Every appended entry is an object of its own (as \<open>create_entry\<close> makes them).
\<close>

record AuditChain =
  chain_id :: string
  entries :: "AuditEntry list"
  last_hash :: "string option"
  index_by_session :: "string \<rightharpoonup> nat list"
  index_by_user :: "string \<rightharpoonup> nat list"

definition new_chain :: "string \<Rightarrow> AuditChain" where
  "new_chain cid =
     \<lparr> chain_id = cid, entries = [], last_hash = None,
       index_by_session = Map.empty, index_by_user = Map.empty \<rparr>"

definition setdefault_append :: "(string \<rightharpoonup> nat list) \<Rightarrow> string \<Rightarrow> nat \<Rightarrow> (string \<rightharpoonup> nat list)" where
  "setdefault_append m k v = m(k \<mapsto> (case m k of None \<Rightarrow> [] | Some vs \<Rightarrow> vs) @ [v])"

definition add :: "digest \<Rightarrow> AuditChain \<Rightarrow> AuditEntry \<Rightarrow> AuditChain \<times> AuditEntry" where
  "add dg ch entry =
     (let e = finalize dg entry (last_hash ch);
          pos = length (entries ch);
          ch1 = ch\<lparr>entries := entries ch @ [e], last_hash := entry_hash e\<rparr>;
          ch2 = (if session_id e \<noteq> []
                 then ch1\<lparr>index_by_session := setdefault_append (index_by_session ch1) (session_id e) pos\<rparr>
                 else ch1);
          ch3 = (case user_id e of
                   Some u \<Rightarrow> (if u \<noteq> []
                              then ch2\<lparr>index_by_user := setdefault_append (index_by_user ch2) u pos\<rparr>
                              else ch2)
                 | None \<Rightarrow> ch2)
      in (ch3, e))"

text \<open>Appending a sequence of entries, one \<open>add\<close> after the other.\<close>

fun add_all :: "digest \<Rightarrow> AuditChain \<Rightarrow> AuditEntry list \<Rightarrow> AuditChain" where
  "add_all dg ch [] = ch"
| "add_all dg ch (e # es) = add_all dg (fst (add dg ch e)) es"

text \<open>
  The loop of \<open>verify_chain\<close>: \<open>prev\<close> is the local \<open>previous_hash\<close>, the result is
  the id of the first entry at which one of the two tests fails.
\<close>

fun verify_loop :: "digest \<Rightarrow> string option \<Rightarrow> AuditEntry list \<Rightarrow> string option" where
  "verify_loop dg prev [] = None"
| "verify_loop dg prev (e # es) =
     (if previous_hash e \<noteq> prev then Some (entry_id e)
      else if entry_hash e \<noteq> Some (compute_hash dg e) then Some (entry_id e)
      else verify_loop dg (entry_hash e) es)"

definition verify_chain :: "digest \<Rightarrow> AuditChain \<Rightarrow> AuditChainStatus" where
  "verify_chain dg ch =
     (if entries ch = []
      then \<lparr> total_entries = 0, valid = True, broken_at = None,
             first_timestamp = None, last_timestamp = None \<rparr>
      else (case verify_loop dg None (entries ch) of
              Some bad \<Rightarrow>
                \<lparr> total_entries = length (entries ch), valid = False, broken_at = Some bad,
                  first_timestamp = Some (timestamp (hd (entries ch))),
                  last_timestamp = Some (timestamp (last (entries ch))) \<rparr>
            | None \<Rightarrow>
                \<lparr> total_entries = length (entries ch), valid = True, broken_at = None,
                  first_timestamp = Some (timestamp (hd (entries ch))),
                  last_timestamp = Some (timestamp (last (entries ch))) \<rparr>))"

text \<open>Proof notions for the ledger: the hash that the next entry must link to, and
  the invariant that \<open>add\<close> maintains.\<close>

fun chain_end :: "string option \<Rightarrow> AuditEntry list \<Rightarrow> string option" where
  "chain_end prev [] = prev"
| "chain_end prev (e # es) = chain_end (entry_hash e) es"

definition intact :: "digest \<Rightarrow> AuditChain \<Rightarrow> bool" where
  "intact dg ch \<longleftrightarrow>
     verify_loop dg None (entries ch) = None \<and> last_hash ch = chain_end None (entries ch)"

section \<open>Python values and string operations\<close>

text \<open>
  Characters are modelled on the ASCII range: \<open>str.upper\<close> and \<open>str.lower\<close> act
  character by character and exchange \<open>a..z\<close> with \<open>A..Z\<close>; \<open>\w\<close> is
  \<open>[A-Za-z0-9_]\<close> and \<open>\s\<close> is the ASCII white space. Every other character is left
  as it is.
\<close>

datatype pyval = PNone | PBool bool | PInt int | PStr string


type_synonym pydict = "(string \<times> pyval) list"

definition dict_get :: "pydict \<Rightarrow> string \<Rightarrow> pyval option" where
  "dict_get d k = map_of d k"

definition dict_set :: "pydict \<Rightarrow> string \<Rightarrow> pyval \<Rightarrow> pydict" where
  "dict_set d k v = (if k \<in> fst ` set d then map (\<lambda>(k', v'). if k' = k then (k', v) else (k', v')) d
                     else d @ [(k, v)])"

definition ascii_lowercase :: string where
  "ascii_lowercase = ''abcdefghijklmnopqrstuvwxyz''"

definition ascii_uppercase :: string where
  "ascii_uppercase = ''ABCDEFGHIJKLMNOPQRSTUVWXYZ''"

definition digits :: string where
  "digits = ''0123456789''"

definition upper_char :: "char \<Rightarrow> char" where
  "upper_char c = (case map_of (zip ascii_lowercase ascii_uppercase) c of Some u \<Rightarrow> u | None \<Rightarrow> c)"

definition lower_char :: "char \<Rightarrow> char" where
  "lower_char c = (case map_of (zip ascii_uppercase ascii_lowercase) c of Some l \<Rightarrow> l | None \<Rightarrow> c)"

definition upper :: "string \<Rightarrow> string" where
  "upper s = map upper_char s"

definition lower :: "string \<Rightarrow> string" where
  "lower s = map lower_char s"

definition is_word_char :: "char \<Rightarrow> bool" where
  "is_word_char c \<longleftrightarrow> c \<in> set (ascii_lowercase @ ascii_uppercase @ digits @ ''_'')"

definition is_space :: "char \<Rightarrow> bool" where
  "is_space c \<longleftrightarrow>
     c \<in> set [CHR 0x20, CHR 0x09, CHR 0x0A, CHR 0x0B, CHR 0x0C, CHR 0x0D,
                CHR 0x1C, CHR 0x1D, CHR 0x1E, CHR 0x1F]"

definition strip :: "string \<Rightarrow> string" where
  "strip s = rev (dropWhile is_space (rev (dropWhile is_space s)))"

definition startswith :: "string \<Rightarrow> string \<Rightarrow> bool" where
  "startswith s p \<longleftrightarrow> take (length p) s = p"

text \<open>\<open>sub in s\<close> on strings: \<open>sub\<close> occurs in \<open>s\<close> as a contiguous piece.\<close>

fun str_in :: "string \<Rightarrow> string \<Rightarrow> bool" where
  "str_in sub [] = (sub = [])"
| "str_in sub (c # cs) = (startswith (c # cs) sub \<or> str_in sub cs)"

text \<open>\<open>s.replace(old, new)\<close>: every occurrence of \<open>old\<close>, left to right, without
  overlap. For an empty \<open>old\<close> Python puts \<open>new\<close> around every character.\<close>

fun replace_scan :: "string \<Rightarrow> string \<Rightarrow> nat \<Rightarrow> string \<Rightarrow> string" where
  "replace_scan old new skip [] = []"
| "replace_scan old new skip (c # cs) =
     (if skip > 0 then replace_scan old new (skip - 1) cs
      else if startswith (c # cs) old then new @ replace_scan old new (length old - 1) cs
      else c # replace_scan old new 0 cs)"

definition replace :: "string \<Rightarrow> string \<Rightarrow> string \<Rightarrow> string" where
  "replace s old new =
     (if old = [] then new @ concat (map (\<lambda>c. c # new) s)
      else replace_scan old new 0 s)"

text \<open>\<open>str(n)\<close> of an integer.\<close>

fun nat_digits :: "nat \<Rightarrow> string" where
  "nat_digits n = (if n < 10 then [digits ! n] else nat_digits (n div 10) @ [digits ! (n mod 10)])"

declare nat_digits.simps [simp del]

definition str_int :: "int \<Rightarrow> string" where
  "str_int i = (if i < 0 then CHR ''-'' # nat_digits (nat (- i)) else nat_digits (nat i))"

text \<open>\<open>str(v)\<close> of a value.\<close>

fun str :: "pyval \<Rightarrow> string" where
  "str PNone = ''None''"
| "str (PBool b) = (if b then ''True'' else ''False'')"
| "str (PInt i) = str_int i"
| "str (PStr s) = s"




section \<open>Security gate (soul\_architecture/layered\_security.py)\<close>

datatype SecurityPhase = ENTRY | CONTENT | BEHAVIOR | EXECUTION

datatype Severity = LOW | MEDIUM | HIGH | CRITICAL

text \<open>
  \<open>CheckResult\<close>. The fields \<open>message\<close> and \<open>remediation\<close> are display text that no
  control flow reads; the model keeps the structured \<open>details\<close>, which carry the
  same data (the keyword found, the text of a caught exception).
\<close>

record CheckResult =
  cr_check_id :: string
  cr_passed :: bool
  cr_severity :: Severity
  cr_phase :: SecurityPhase
  cr_details :: "(string \<times> string) list"

text \<open>
  A check is an object with its attributes and its \<open>check\<close> method. The method gets
  the shared context dictionary, may change it, and either returns a result or raises
  an exception (an instance of \<open>Exception\<close>, given by its text): the model returns
  the outcome together with the context it leaves behind.
\<close>

type_synonym check_outcome = "(string + CheckResult) \<times> pydict"

record SecurityCheck =
  sc_check_id :: string
  sc_name :: string
  sc_phase :: SecurityPhase
  sc_severity :: Severity
  sc_enabled :: bool
  sc_check :: "pydict \<Rightarrow> check_outcome"

definition fail :: "string \<Rightarrow> Severity \<Rightarrow> SecurityPhase \<Rightarrow> (string \<times> string) list \<Rightarrow> CheckResult" where
  "fail cid sev ph det =
     \<lparr> cr_check_id = cid, cr_passed = False, cr_severity = sev, cr_phase = ph, cr_details = det \<rparr>"

definition pass' :: "string \<Rightarrow> Severity \<Rightarrow> SecurityPhase \<Rightarrow> (string \<times> string) list \<Rightarrow> CheckResult" where
  "pass' cid sev ph det =
     \<lparr> cr_check_id = cid, cr_passed = True, cr_severity = sev, cr_phase = ph, cr_details = det \<rparr>"

definition WRITE_KEYWORDS :: "string list" where
  "WRITE_KEYWORDS =
     [''INSERT'', ''UPDATE'', ''DELETE'', ''DROP'',
      ''CREATE'', ''ALTER'', ''TRUNCATE'', ''GRANT'', ''REVOKE'']"

text \<open>
  \<open>SQLReadOnlyCheck.check\<close>: \<open>context.get("sql", "").upper()\<close>, then the first
  keyword of the list that occurs in it fails the check. A value under \<open>"sql"\<close> that
  is not a string has no \<open>upper\<close>: the method raises.
\<close>

definition SQLReadOnlyCheck_check :: "pydict \<Rightarrow> check_outcome" where
  "SQLReadOnlyCheck_check context =
     (case (case dict_get context ''sql'' of None \<Rightarrow> Some [] | Some (PStr s) \<Rightarrow> Some s | Some _ \<Rightarrow> None) of
        None \<Rightarrow> (Inl ''AttributeError'', context)
      | Some text \<Rightarrow>
          (let sql = upper text in
           case find (\<lambda>keyword. str_in keyword sql) WRITE_KEYWORDS of
             Some keyword \<Rightarrow>
               (Inr (fail ''SEC-031'' CRITICAL EXECUTION
                       [(''keyword'', keyword), (''operation'', ''WRITE'')]), context)
           | None \<Rightarrow> (Inr (pass' ''SEC-031'' CRITICAL EXECUTION []), context)))"

definition SQLReadOnlyCheck :: SecurityCheck where
  "SQLReadOnlyCheck =
     \<lparr> sc_check_id = ''SEC-031'', sc_name = ''SQLReadOnlyCheck'', sc_phase = EXECUTION,
       sc_severity = CRITICAL, sc_enabled = True, sc_check = SQLReadOnlyCheck_check \<rparr>"

record LayeredSecuritySystem =
  checks :: "SecurityCheck list"
  fail_fast :: bool

definition register :: "LayeredSecuritySystem \<Rightarrow> SecurityCheck \<Rightarrow> LayeredSecuritySystem" where
  "register sys c = sys\<lparr>checks := checks sys @ [c]\<rparr>"

text \<open>
  The state of the loop of \<open>run_phase\<close>: the result list, the context, whether a
  \<open>break\<close> has left the loop, and a log of the ids of the checks whose \<open>check\<close>
  method was called (the log exists only in the model).
\<close>

record phase_state =
  ps_results :: "CheckResult list"
  ps_context :: pydict
  ps_stopped :: bool
  ps_called :: "string list"

definition exception_result :: "SecurityCheck \<Rightarrow> SecurityPhase \<Rightarrow> string \<Rightarrow> CheckResult" where
  "exception_result c ph e =
     \<lparr> cr_check_id = sc_check_id c, cr_passed = False, cr_severity = CRITICAL,
       cr_phase = ph, cr_details = [(''error'', e)] \<rparr>"

definition run_phase_step :: "bool \<Rightarrow> SecurityPhase \<Rightarrow> SecurityCheck \<Rightarrow> phase_state \<Rightarrow> phase_state" where
  "run_phase_step ff ph c st =
     (if ps_stopped st then st
      else if sc_phase c \<noteq> ph \<or> \<not> sc_enabled c then st
      else (case sc_check c (ps_context st) of
              (Inr result, ctx') \<Rightarrow>
                st\<lparr> ps_results := ps_results st @ [result],
                    ps_context := ctx',
                    ps_called := ps_called st @ [sc_check_id c],
                    ps_stopped := (ff \<and> \<not> cr_passed result
                                     \<and> cr_severity result \<in> set [CRITICAL, HIGH]) \<rparr>
            | (Inl e, ctx') \<Rightarrow>
                st\<lparr> ps_results := ps_results st @ [exception_result c ph e],
                    ps_context := ctx',
                    ps_called := ps_called st @ [sc_check_id c],
                    ps_stopped := ff \<rparr>))"

definition run_phase_from :: "LayeredSecuritySystem \<Rightarrow> SecurityPhase \<Rightarrow> SecurityCheck list \<Rightarrow> phase_state \<Rightarrow> phase_state" where
  "run_phase_from sys ph cs st = fold (run_phase_step (fail_fast sys) ph) cs st"

definition phase_start :: "pydict \<Rightarrow> phase_state" where
  "phase_start context =
     \<lparr> ps_results = [], ps_context = context, ps_stopped = False, ps_called = [] \<rparr>"

definition run_phase_state :: "LayeredSecuritySystem \<Rightarrow> SecurityPhase \<Rightarrow> pydict \<Rightarrow> phase_state" where
  "run_phase_state sys ph context = run_phase_from sys ph (checks sys) (phase_start context)"

definition run_phase :: "LayeredSecuritySystem \<Rightarrow> SecurityPhase \<Rightarrow> pydict \<Rightarrow> CheckResult list" where
  "run_phase sys ph context = ps_results (run_phase_state sys ph context)"

section \<open>The read-only SQL runner (soul\_architecture/zero\_hallucination\_overwriter.py)\<close>

datatype DataSourceType = SQL | API | FILE | CACHE | MEMORY

record DataSource =
  ds_name :: string
  ds_source_type :: DataSourceType
  ds_connection_string :: "string option"
  ds_read_only :: bool
  ds_timeout :: int

definition runner_WRITE_KEYWORDS :: "string list" where
  "runner_WRITE_KEYWORDS =
     [''insert'', ''update'', ''delete'', ''drop'', ''create'',
      ''alter'', ''truncate'', ''grant'', ''revoke'', ''merge'']"

definition is_readonly :: "string \<Rightarrow> bool" where
  "is_readonly query =
     (let query_upper = strip (upper query) in
      if \<not> startswith query_upper ''SELECT'' then False
      else (let query_lower = lower query in
            if list_ex (\<lambda>keyword. str_in keyword query_lower) runner_WRITE_KEYWORDS then False
            else True))"

text \<open>What a runner hands back: the \<open>"data"\<close> dictionary and the row count
  (the elapsed time is wall-clock time and is left out).\<close>

record query_result =
  qr_data :: "pydict option"
  qr_row_count :: nat

text \<open>The value that the simulated query of the source returns: a fixed text of five
  CJK characters, given here by its UTF-8 bytes.\<close>

definition simulated_value :: string where
  "simulated_value =
     [CHR 0xE7, CHR 0xB2, CHR 0xBE, CHR 0xE7, CHR 0xA2, CHR 0xBA, CHR 0xE6, CHR 0x95, CHR 0xB8,
      CHR 0xE6, CHR 0x93, CHR 0x9A, CHR 0xE5, CHR 0x80, CHR 0xBC]"

definition SQLQueryRunner_execute :: "DataSource \<Rightarrow> string \<Rightarrow> string + query_result" where
  "SQLQueryRunner_execute data_source query =
     (if \<not> is_readonly query then Inl ''ValueError''
      else Inr \<lparr> qr_data = Some [(''value'', PStr simulated_value)], qr_row_count = 1 \<rparr>)"


section \<open>Tool runtime (core/interfaces/tool\_interface.py, core/tool\_runtime)\<close>

datatype Permission =
    FILESYSTEM_READ | FILESYSTEM_WRITE | NETWORK_INTERNAL | NETWORK_EXTERNAL
  | DATABASE_READ | DATABASE_WRITE | PROCESS_EXECUTE | SYSTEM_INFO | SYSTEM_CONFIG

record ToolContext =
  tc_user_id :: string
  tc_tenant_id :: string
  tc_mode :: string
  tc_session_id :: string
  tc_permissions :: "Permission list"
  tc_request_id :: string

text \<open>The \<open>error\<close> text of a \<open>ToolResult\<close> is kept by what it reports: the executor
  formats one of these five messages.\<close>

datatype tool_error =
    ToolNotFound string
  | PermissionDenied "Permission set"
  | ValidationFailed
  | ExecutionTimeout nat
  | ExecutionException string

record ToolResult =
  tr_success :: bool
  tr_data :: pyval
  tr_error :: "tool_error option"
  tr_metadata :: pydict

record ToolMetadata =
  tm_id :: string
  tm_name :: string
  tm_category :: string
  tm_version :: string
  tm_permissions :: "Permission list"
  tm_dangerous :: bool
  tm_input_schema :: "string \<rightharpoonup> nat"
  tm_sandbox_required :: bool
  tm_network_access :: bool
  tm_filesystem_access :: bool

text \<open>
  What awaiting \<open>asyncio.wait_for(tool.execute(context, params), timeout)\<close> gives:
  the tool's result, \<open>asyncio.TimeoutError\<close>, or another exception.
\<close>

datatype run_outcome = Returned ToolResult | TimedOut | Raised string

text \<open>A tool object: its metadata and the two methods the executor calls.
  \<open>validate_input\<close> returns a truth value or raises; \<open>execute\<close> is given with the
  time bound it is raced against.\<close>

record tool =
  t_metadata :: ToolMetadata
  t_validate_input :: "pydict \<Rightarrow> string + bool"
  t_execute :: "ToolContext \<Rightarrow> pydict \<Rightarrow> nat \<Rightarrow> run_outcome"

definition check_permission :: "tool \<Rightarrow> ToolContext \<Rightarrow> bool" where
  "check_permission t context =
     (let required = set (tm_permissions (t_metadata t));
          granted = set (tc_permissions context)
      in required \<subseteq> granted)"

record tool_stats =
  call_count :: nat
  success_count :: nat
  error_count :: nat

record ToolRegistry =
  reg_tools :: "string \<rightharpoonup> tool"
  reg_stats :: "string \<rightharpoonup> tool_stats"

definition get_tool :: "ToolRegistry \<Rightarrow> string \<Rightarrow> tool option" where
  "get_tool reg tool_id = reg_tools reg tool_id"

definition record_call :: "ToolRegistry \<Rightarrow> string \<Rightarrow> bool \<Rightarrow> ToolRegistry" where
  "record_call reg tool_id ok =
     (case reg_stats reg tool_id of
        None \<Rightarrow> reg
      | Some st \<Rightarrow>
          reg\<lparr>reg_stats := (reg_stats reg)(tool_id \<mapsto>
                 (if ok then st\<lparr>call_count := call_count st + 1, success_count := success_count st + 1\<rparr>
                  else st\<lparr>call_count := call_count st + 1, error_count := error_count st + 1\<rparr>))\<rparr>)"

text \<open>
  The executor with the registry it owns. The audit callback, when one is set, is an
  outside effect whose exceptions are caught and only logged; the model records each
  call of it. The log \<open>ex_log\<close> lists, in order, the calls that \<open>execute\<close> makes on
  the tool and on the callback.
\<close>

datatype call_event =
    Called_validate_input string
  | Called_execute string
  | Called_audit string bool "tool_error option"

record ToolExecutor =
  ex_registry :: ToolRegistry
  ex_default_timeout :: nat
  ex_enable_sandbox :: bool
  ex_audit_callback :: bool
  ex_log :: "call_event list"

definition audit :: "ToolExecutor \<Rightarrow> string \<Rightarrow> ToolResult option \<Rightarrow> tool_error option \<Rightarrow> ToolExecutor" where
  "audit ex tool_id result error =
     (if ex_audit_callback ex
      then ex\<lparr>ex_log := ex_log ex @
                 [Called_audit tool_id
                    (case result of Some r \<Rightarrow> tr_success r | None \<Rightarrow> False)
                    (case error of Some e \<Rightarrow> Some e
                     | None \<Rightarrow> (case result of Some r \<Rightarrow> tr_error r | None \<Rightarrow> None))]\<rparr>
      else ex)"

definition execute_with_timeout :: "ToolExecutor \<Rightarrow> string \<Rightarrow> tool \<Rightarrow> ToolContext \<Rightarrow> pydict \<Rightarrow> nat \<Rightarrow> run_outcome \<times> ToolExecutor" where
  "execute_with_timeout ex tool_id t context params timeout =
     (t_execute t context params timeout, ex\<lparr>ex_log := ex_log ex @ [Called_execute tool_id]\<rparr>)"

definition execute_in_sandbox :: "ToolExecutor \<Rightarrow> string \<Rightarrow> tool \<Rightarrow> ToolContext \<Rightarrow> pydict \<Rightarrow> nat \<Rightarrow> run_outcome \<times> ToolExecutor" where
  "execute_in_sandbox ex tool_id t context params timeout =
     execute_with_timeout ex tool_id t context params timeout"

definition failure :: "tool_error \<Rightarrow> ToolResult" where
  "failure e = \<lparr> tr_success = False, tr_data = PNone, tr_error = Some e, tr_metadata = [] \<rparr>"

text \<open>\<open>ToolExecutor.execute\<close>. An exception of \<open>validate_input\<close> is raised outside
  the \<open>try\<close> block and leaves \<open>execute\<close>: the result is \<open>Inl\<close> then.\<close>

definition execute :: "ToolExecutor \<Rightarrow> string \<Rightarrow> ToolContext \<Rightarrow> pydict \<Rightarrow> nat option \<Rightarrow> (string + ToolResult) \<times> ToolExecutor" where
  "execute ex tool_id context params timeout =
     (case get_tool (ex_registry ex) tool_id of
        None \<Rightarrow> (Inr (failure (ToolNotFound tool_id)), ex)
      | Some t \<Rightarrow>
          (let metadata = t_metadata t in
           if \<not> check_permission t context then
             (let missing_perms = set (tm_permissions metadata) - set (tc_permissions context);
                  error_msg = PermissionDenied missing_perms;
                  ex1 = audit ex tool_id None (Some error_msg)
              in (Inr (failure error_msg), ex1))
           else
             (let ex1 = ex\<lparr>ex_log := ex_log ex @ [Called_validate_input tool_id]\<rparr> in
              case t_validate_input t params of
                Inl e \<Rightarrow> (Inl e, ex1)
              | Inr False \<Rightarrow> (Inr (failure ValidationFailed), ex1)
              | Inr True \<Rightarrow>
                  (let timeout' =
                         (case timeout of
                            Some n \<Rightarrow> if n \<noteq> 0 then n
                                      else (case tm_input_schema metadata ''timeout'' of
                                              Some m \<Rightarrow> m | None \<Rightarrow> ex_default_timeout ex)
                          | None \<Rightarrow> (case tm_input_schema metadata ''timeout'' of
                                       Some m \<Rightarrow> m | None \<Rightarrow> ex_default_timeout ex));
                       (outcome, ex2) =
                         (if ex_enable_sandbox ex \<and> tm_sandbox_required metadata
                          then execute_in_sandbox ex1 tool_id t context params timeout'
                          else execute_with_timeout ex1 tool_id t context params timeout')
                   in case outcome of
                        Returned result \<Rightarrow>
                          (let ex3 = ex2\<lparr>ex_registry := record_call (ex_registry ex2) tool_id (tr_success result)\<rparr>;
                               ex4 = audit ex3 tool_id (Some result) None
                           in (Inr result, ex4))
                      | TimedOut \<Rightarrow>
                          (let ex3 = ex2\<lparr>ex_registry := record_call (ex_registry ex2) tool_id False\<rparr>;
                               ex4 = audit ex3 tool_id None (Some (ExecutionTimeout timeout'))
                           in (Inr (failure (ExecutionTimeout timeout')), ex4))
                      | Raised e \<Rightarrow>
                          (let ex3 = ex2\<lparr>ex_registry := record_call (ex_registry ex2) tool_id False\<rparr>;
                               ex4 = audit ex3 tool_id None (Some (ExecutionException e))
                           in (Inr (failure (ExecutionException e)), ex4))))))"


section \<open>Mode decision (soul\_architecture/dynamic\_mode\_engine.py)\<close>






















section \<open>The overwrite layer (soul\_architecture/zero\_hallucination\_overwriter.py)\<close>

text \<open>
  The four placeholder forms of \<open>PlaceholderParser\<close>. Each pattern is an opening text,
  a key \<open>\w+(?:\.\w+)*\<close> and a closing text (the third form closes with \<open>\b\<close>).
  The key is matched greedily; no shorter key can be followed by the closing text, and
  after the longest key the position is a word boundary, so a match at a position is
  the opening, the longest key, and the closing.
\<close>

datatype placeholder_syntax = Braces | DollarBraces | Dollar | Brackets

fun opening_text :: "placeholder_syntax \<Rightarrow> string" where
  "opening_text Braces = ''{{''"
| "opening_text DollarBraces = ''${''"
| "opening_text Dollar = ''$''"
| "opening_text Brackets = ''[[''"

fun closing_text :: "placeholder_syntax \<Rightarrow> string" where
  "closing_text Braces = ''}}''"
| "closing_text DollarBraces = ''}''"
| "closing_text Dollar = []"
| "closing_text Brackets = '']]''"

definition PLACEHOLDER_PATTERNS :: "placeholder_syntax list" where
  "PLACEHOLDER_PATTERNS = [Braces, DollarBraces, Dollar, Brackets]"

text \<open>The length of the longest key at the start of a string (0 when there is none):
  \<open>good\<close> is the length of the longest key seen, \<open>cur\<close> the number of characters
  read, \<open>in_word\<close> whether the last character read was a word character.\<close>

fun key_scan :: "nat \<Rightarrow> nat \<Rightarrow> bool \<Rightarrow> string \<Rightarrow> nat" where
  "key_scan good cur in_word [] = good"
| "key_scan good cur in_word (c # cs) =
     (if is_word_char c then key_scan (cur + 1) (cur + 1) True cs
      else if c = CHR ''.'' \<and> in_word then key_scan good (cur + 1) False cs
      else good)"

definition key_len :: "string \<Rightarrow> nat" where
  "key_len s = key_scan 0 0 False s"

text \<open>A match of one pattern at the start of a string: its length and its key.\<close>

definition match_at :: "placeholder_syntax \<Rightarrow> string \<Rightarrow> (nat \<times> string) option" where
  "match_at syn s =
     (if \<not> startswith s (opening_text syn) then None
      else (let r = drop (length (opening_text syn)) s; k = key_len r in
            if k = 0 then None
            else if \<not> startswith (drop k r) (closing_text syn) then None
            else Some (length (opening_text syn) + k + length (closing_text syn), take k r)))"

record placeholder_info =
  ph_placeholder :: string
  ph_key :: string
  ph_position :: "nat \<times> nat"

text \<open>\<open>pattern.finditer(template)\<close>: the matches from left to right, without overlap;
  \<open>skip\<close> counts the characters still covered by the last match.\<close>

fun finditer :: "placeholder_syntax \<Rightarrow> nat \<Rightarrow> nat \<Rightarrow> string \<Rightarrow> placeholder_info list" where
  "finditer syn skip pos [] = []"
| "finditer syn skip pos (c # cs) =
     (if skip > 0 then finditer syn (skip - 1) (pos + 1) cs
      else (case match_at syn (c # cs) of
              Some (n, key) \<Rightarrow>
                \<lparr> ph_placeholder = take n (c # cs), ph_key = key, ph_position = (pos, pos + n) \<rparr>
                  # finditer syn (n - 1) (pos + 1) cs
            | None \<Rightarrow> finditer syn 0 (pos + 1) cs))"

definition parse :: "string \<Rightarrow> placeholder_info list" where
  "parse template = concat (map (\<lambda>pattern. finditer pattern 0 0 template) PLACEHOLDER_PATTERNS)"

text \<open>
  Rules and results. The validator and the transform of a rule are optional functions;
  \<open>query_time_ms\<close> is wall-clock time and is left out. The error text of a result is
  kept by its kind.
\<close>

record OverwriteRule =
  rule_placeholder :: string
  rule_data_source :: string
  rule_query_template :: string
  rule_fallback_value :: pyval
  rule_validator :: "(pyval \<Rightarrow> bool) option"
  rule_transform :: "(pyval \<Rightarrow> pyval) option"

datatype overwrite_error = RuleNotFound | SourceNotRegistered | ResolutionFailed string

record OverwriteResult =
  or_success :: bool
  or_placeholder :: string
  or_original_value :: string
  or_final_value :: pyval
  or_data_source :: string
  or_error :: "overwrite_error option"

type_synonym query_runner = "DataSource \<Rightarrow> string \<Rightarrow> string + query_result"

record ZeroHallucinationOverwriter =
  data_sources :: "string \<rightharpoonup> DataSource"
  rules :: "string \<rightharpoonup> OverwriteRule"
  query_runners :: "DataSourceType \<rightharpoonup> query_runner"

definition new_overwriter :: ZeroHallucinationOverwriter where
  "new_overwriter =
     \<lparr> data_sources = Map.empty, rules = Map.empty,
       query_runners = [SQL \<mapsto> SQLQueryRunner_execute] \<rparr>"

definition register_data_source :: "ZeroHallucinationOverwriter \<Rightarrow> DataSource \<Rightarrow> ZeroHallucinationOverwriter" where
  "register_data_source ow source = ow\<lparr>data_sources := (data_sources ow)(ds_name source \<mapsto> source)\<rparr>"

definition register_rule :: "ZeroHallucinationOverwriter \<Rightarrow> OverwriteRule \<Rightarrow> ZeroHallucinationOverwriter" where
  "register_rule ow rule = ow\<lparr>rules := (rules ow)(rule_placeholder rule \<mapsto> rule)\<rparr>"

text \<open>\<open>_sanitize_value\<close>: a number (a truth value is one) is written out; of a string
  only word characters, white space, \<open>.\<close> and \<open>-\<close> are kept, between single quotes.\<close>

definition sanitize_value :: "pyval \<Rightarrow> string" where
  "sanitize_value v =
     (case v of
        PStr s \<Rightarrow>
          [CHR 0x27] @ filter (\<lambda>c. is_word_char c \<or> is_space c \<or> c = CHR ''.'' \<or> c = CHR ''-'') s
            @ [CHR 0x27]
      | _ \<Rightarrow> str v)"

definition build_query :: "string \<Rightarrow> pydict option \<Rightarrow> string" where
  "build_query template context =
     (case context of
        None \<Rightarrow> template
      | Some c \<Rightarrow>
          if c = [] then template
          else fold (\<lambda>(key, v) query.
                 (let placeholder = ''{'' @ key @ ''}'' in
                  if str_in placeholder query then replace query placeholder (sanitize_value v)
                  else query)) c template)"

text \<open>\<open>_overwrite_single\<close>. The body of the \<open>try\<close> block gives a value or raises;
  the handler turns a raise into the fallback (counted as a success) or into a failed
  result.\<close>

definition resolve :: "ZeroHallucinationOverwriter \<Rightarrow> OverwriteRule \<Rightarrow> DataSource \<Rightarrow> pydict option \<Rightarrow> string + pyval" where
  "resolve ow rule data_source context =
     (let query = build_query (rule_query_template rule) context in
      case query_runners ow (ds_source_type data_source) of
        None \<Rightarrow> Inl ''ValueError''
      | Some runner \<Rightarrow>
          (case runner data_source query of
             Inl e \<Rightarrow> Inl e
           | Inr query_result \<Rightarrow>
               (let v = (case qr_data query_result of
                           None \<Rightarrow> PNone
                         | Some d \<Rightarrow> (case dict_get d ''value'' of None \<Rightarrow> PNone | Some x \<Rightarrow> x))
                in if (case rule_validator rule of Some validator \<Rightarrow> \<not> validator v | None \<Rightarrow> False)
                   then Inl ''ValueError''
                   else Inr (case rule_transform rule of Some transform \<Rightarrow> transform v | None \<Rightarrow> v))))"

definition overwrite_single :: "ZeroHallucinationOverwriter \<Rightarrow> string \<Rightarrow> string \<Rightarrow> pydict option \<Rightarrow> OverwriteResult" where
  "overwrite_single ow placeholder key context =
     (case rules ow placeholder of
        None \<Rightarrow>
          (case (case context of
                   None \<Rightarrow> None
                 | Some c \<Rightarrow> if c \<noteq> [] then dict_get c key else None) of
             Some v \<Rightarrow>
               \<lparr> or_success = True, or_placeholder = placeholder, or_original_value = placeholder,
                 or_final_value = v, or_data_source = ''context'', or_error = None \<rparr>
           | None \<Rightarrow>
               \<lparr> or_success = False, or_placeholder = placeholder, or_original_value = placeholder,
                 or_final_value = PNone, or_data_source = ''unknown'', or_error = Some RuleNotFound \<rparr>)
      | Some rule \<Rightarrow>
          (case data_sources ow (rule_data_source rule) of
             None \<Rightarrow>
               \<lparr> or_success = False, or_placeholder = placeholder, or_original_value = placeholder,
                 or_final_value = PNone, or_data_source = rule_data_source rule,
                 or_error = Some SourceNotRegistered \<rparr>
           | Some data_source \<Rightarrow>
               (case resolve ow rule data_source context of
                  Inr v \<Rightarrow>
                    \<lparr> or_success = True, or_placeholder = placeholder, or_original_value = placeholder,
                      or_final_value = v, or_data_source = rule_data_source rule, or_error = None \<rparr>
                | Inl e \<Rightarrow>
                    if rule_fallback_value rule \<noteq> PNone then
                      \<lparr> or_success = True, or_placeholder = placeholder,
                        or_original_value = placeholder, or_final_value = rule_fallback_value rule,
                        or_data_source = rule_data_source rule, or_error = None \<rparr>
                    else
                      \<lparr> or_success = False, or_placeholder = placeholder,
                        or_original_value = placeholder, or_final_value = PNone,
                        or_data_source = rule_data_source rule,
                        or_error = Some (ResolutionFailed e) \<rparr>)))"

record overwrite_stats =
  st_total :: nat
  st_success :: nat
  st_failed :: nat

record overwrite_output =
  final_output :: string
  results :: "OverwriteResult list"
  all_success :: bool
  stats :: overwrite_stats

text \<open>One round of the loop of \<open>overwrite\<close>, on the pair of \<open>results\<close> and
  \<open>final_output\<close>.\<close>

definition overwrite_step :: "ZeroHallucinationOverwriter \<Rightarrow> pydict option \<Rightarrow> placeholder_info \<Rightarrow> OverwriteResult list \<times> string \<Rightarrow> OverwriteResult list \<times> string" where
  "overwrite_step ow context ph_info st =
     (let placeholder = ph_placeholder ph_info;
          key = ph_key ph_info;
          result = overwrite_single ow placeholder key context;
          results' = fst st @ [result]
      in if or_success result
         then (results', replace (snd st) placeholder (str (or_final_value result)))
         else (let fallback = (case rules ow placeholder of
                                 Some rule \<Rightarrow> rule_fallback_value rule
                               | None \<Rightarrow> PNone)
               in if fallback \<noteq> PNone
                  then (results', replace (snd st) placeholder (str fallback))
                  else (results', snd st)))"

definition overwrite :: "ZeroHallucinationOverwriter \<Rightarrow> string \<Rightarrow> pydict option \<Rightarrow> overwrite_output" where
  "overwrite ow template context =
     (let placeholders = parse template in
      if placeholders = [] then
        \<lparr> final_output = template, results = [], all_success = True,
          stats = \<lparr> st_total = 0, st_success = 0, st_failed = 0 \<rparr> \<rparr>
      else
        (let (results', final_output') = fold (overwrite_step ow context) placeholders ([], template);
             success_count = length (filter or_success results')
         in \<lparr> final_output = final_output', results = results',
              all_success = (success_count = length results'),
              stats = \<lparr> st_total = length results', st_success = success_count,
                        st_failed = length results' - success_count \<rparr> \<rparr>))"


section \<open>Concrete inputs\<close>

text \<open>A digest to compute with: the seven hashed values written one after the other.
  The theorems below hold for every digest; this one serves to run the ledger.\<close>

definition sample_digest :: digest where
  "sample_digest h =
     hd_entry_id h @ ''|'' @ hd_timestamp h @ ''|'' @ hd_event_type h @ ''|'' @ hd_action h
       @ ''|'' @ hd_session_id h @ ''|'' @ hd_request_id h @ ''|''
       @ (case hd_previous_hash h of None \<Rightarrow> ''null'' | Some p \<Rightarrow> p)"

text \<open>An entry as \<open>create_entry\<close> returns it, before it is appended: no hashes yet.\<close>

definition sample_entry :: "string \<Rightarrow> string \<Rightarrow> AuditEntry" where
  "sample_entry eid act =
     \<lparr> entry_id = eid, timestamp = ''2024-01-01T00:00:00'', level = INFO,
       event_type = MODE_DECISION, session_id = ''s1'', request_id = ''r1'', action = act,
       description = ''first description'', user_id = Some ''alice'', tenant_id = None,
       details = [], decision = None, reason = None, confidence = None, success = True,
       error_message = None, duration_ms = None, entry_hash = None, previous_hash = None \<rparr>"

definition sample_entries :: "AuditEntry list" where
  "sample_entries = [sample_entry ''e0'' ''a0'', sample_entry ''e1'' ''a1'', sample_entry ''e2'' ''a2'']"

definition sample_chain :: "digest \<Rightarrow> AuditChain" where
  "sample_chain dg = add_all dg (new_chain ''chain'') sample_entries"

text \<open>Changing an entry of the ledger in place, as an assignment to an attribute of
  \<open>chain._entries[i]\<close> does.\<close>

definition tamper :: "AuditChain \<Rightarrow> nat \<Rightarrow> (AuditEntry \<Rightarrow> AuditEntry) \<Rightarrow> AuditChain" where
  "tamper ch i f = ch\<lparr>entries := (entries ch)[i := f (entries ch ! i)]\<rparr>"

text \<open>Cutting the tail of the ledger: only the first \<open>k\<close> entries are left.\<close>

definition truncate_tail :: "AuditChain \<Rightarrow> nat \<Rightarrow> AuditChain" where
  "truncate_tail ch k = ch\<lparr>entries := take k (entries ch)\<rparr>"


text \<open>Security checks for running the gate: one that always fails with a given
  severity, one whose \<open>check\<close> raises.\<close>

definition failing_check :: "string \<Rightarrow> Severity \<Rightarrow> SecurityPhase \<Rightarrow> SecurityCheck" where
  "failing_check cid sev ph =
     \<lparr> sc_check_id = cid, sc_name = cid, sc_phase = ph, sc_severity = sev, sc_enabled = True,
       sc_check = (\<lambda>context. (Inr (fail cid sev ph []), context)) \<rparr>"

definition raising_check :: "string \<Rightarrow> SecurityPhase \<Rightarrow> SecurityCheck" where
  "raising_check cid ph =
     \<lparr> sc_check_id = cid, sc_name = cid, sc_phase = ph, sc_severity = LOW, sc_enabled = True,
       sc_check = (\<lambda>context. (Inl ''KeyError'', context)) \<rparr>"


definition raising_gate :: LayeredSecuritySystem where
  "raising_gate =
     \<lparr> checks = [raising_check ''R'' ENTRY, failing_check ''B'' HIGH ENTRY], fail_fast = False \<rparr>"

text \<open>A registered tool that declares two permissions, and a caller that holds one.\<close>

definition sample_tool :: tool where
  "sample_tool =
     \<lparr> t_metadata =
         \<lparr> tm_id = ''db.write'', tm_name = ''write'', tm_category = ''database'',
           tm_version = ''1.0.0'', tm_permissions = [DATABASE_READ, DATABASE_WRITE],
           tm_dangerous = True, tm_input_schema = Map.empty, tm_sandbox_required = True,
           tm_network_access = False, tm_filesystem_access = False \<rparr>,
       t_validate_input = (\<lambda>params. Inr True),
       t_execute = (\<lambda>context params timeout.
          Returned \<lparr> tr_success = True, tr_data = PNone, tr_error = None, tr_metadata = [] \<rparr>) \<rparr>"

definition sample_executor :: ToolExecutor where
  "sample_executor =
     \<lparr> ex_registry =
         \<lparr> reg_tools = [''db.write'' \<mapsto> sample_tool],
           reg_stats = [''db.write'' \<mapsto> \<lparr> call_count = 0, success_count = 0, error_count = 0 \<rparr>] \<rparr>,
       ex_default_timeout = 30, ex_enable_sandbox = True, ex_audit_callback = True, ex_log = [] \<rparr>"

definition sample_context :: ToolContext where
  "sample_context =
     \<lparr> tc_user_id = ''alice'', tc_tenant_id = ''t1'', tc_mode = ''hybrid_shield'',
       tc_session_id = ''s1'', tc_permissions = [DATABASE_READ], tc_request_id = ''r1'' \<rparr>"







definition sample_source :: DataSource where
  "sample_source = \<lparr> ds_name = ''db'', ds_source_type = SQL, ds_connection_string = None,
       ds_read_only = True, ds_timeout = 30 \<rparr>"


text \<open>An overwriter with two rules that both declare the fallback \<open>N/A\<close>: the data
  source of the first is not registered; the data source of the second is registered
  and its query is refused by the runner.\<close>

definition unregistered_rule :: OverwriteRule where
  "unregistered_rule =
     \<lparr> rule_placeholder = ''{{user.balance}}'', rule_data_source = ''missing_db'',
       rule_query_template = ''SELECT balance FROM users'', rule_fallback_value = PStr ''N/A'',
       rule_validator = None, rule_transform = None \<rparr>"

definition refused_rule :: OverwriteRule where
  "refused_rule =
     \<lparr> rule_placeholder = ''{{user.level}}'', rule_data_source = ''db'',
       rule_query_template = ''SHOW TABLES'', rule_fallback_value = PStr ''N/A'',
       rule_validator = None, rule_transform = None \<rparr>"

definition sample_overwriter :: ZeroHallucinationOverwriter where
  "sample_overwriter =
     register_rule (register_rule (register_data_source new_overwriter sample_source)
       unregistered_rule) refused_rule"


section \<open>The ledger: appending, verifying, truncating, tampering\<close>

lemma entries_add:
  "entries (fst (add dg ch e)) = entries ch @ [finalize dg e (last_hash ch)]"
  by (simp add: add_def Let_def split: option.splits)

lemma last_hash_add:
  "last_hash (fst (add dg ch e)) = entry_hash (finalize dg e (last_hash ch))"
  by (simp add: add_def Let_def split: option.splits)

lemma finalize_previous_hash: "previous_hash (finalize dg e p) = p"
  by (simp add: finalize_def Let_def)

lemma finalize_entry_hash:
  "entry_hash (finalize dg e p) = Some (compute_hash dg (finalize dg e p))"
  by (simp add: finalize_def Let_def compute_hash_def)

lemma chain_end_snoc: "chain_end prev (es @ [e]) = entry_hash e"
  by (induction es arbitrary: prev) simp_all

lemma verify_loop_append:
  "verify_loop dg prev (xs @ ys) =
     (case verify_loop dg prev xs of
        Some bad \<Rightarrow> Some bad
      | None \<Rightarrow> verify_loop dg (chain_end prev xs) ys)"
  by (induction xs arbitrary: prev) (simp_all split: option.splits)

lemma verify_loop_take:
  "verify_loop dg prev es = None \<Longrightarrow> verify_loop dg prev (take k es) = None"
proof -
  assume ok: "verify_loop dg prev es = None"
  have "verify_loop dg prev (take k es @ drop k es) = None"
    using ok by simp
  then show ?thesis
    unfolding verify_loop_append by (simp split: option.splits)
qed

lemma intact_new: "intact dg (new_chain cid)"
  by (simp add: intact_def new_chain_def)

lemma intact_add: "intact dg ch \<Longrightarrow> intact dg (fst (add dg ch e))"
  by (simp add: intact_def entries_add last_hash_add verify_loop_append chain_end_snoc
      finalize_previous_hash finalize_entry_hash)

lemma intact_add_all: "intact dg ch \<Longrightarrow> intact dg (add_all dg ch es)"
  by (induction es arbitrary: ch) (simp_all add: intact_add)

lemma length_add_all: "length (entries (add_all dg ch es)) = length (entries ch) + length es"
  by (induction es arbitrary: ch) (simp_all add: entries_add)

lemma verify_loop_linked:
  "verify_loop dg prev es = None \<Longrightarrow> i < length es \<Longrightarrow>
     previous_hash (es ! i) = (if i = 0 then prev else entry_hash (es ! (i - 1)))"
proof (induction es arbitrary: prev i)
  case Nil
  then show ?case by simp
next
  case (Cons e es)
  show ?case
  proof (cases i)
    case 0
    with Cons.prems show ?thesis by (simp split: if_splits)
  next
    case (Suc j)
    from Cons.prems have ok: "verify_loop dg (entry_hash e) es = None"
      by (simp split: if_splits)
    from Cons.prems Suc have "j < length es" by simp
    from Cons.IH[OF ok this] Suc show ?thesis
      by (cases j) simp_all
  qed
qed

lemma verify_chain_of_loop:
  "verify_loop dg None (entries ch) = None \<Longrightarrow>
     valid (verify_chain dg ch) \<and> total_entries (verify_chain dg ch) = length (entries ch)
     \<and> broken_at (verify_chain dg ch) = None"
  by (simp add: verify_chain_def)

lemma verify_loop_add_all:
  "verify_loop dg None (entries (add_all dg (new_chain cid) es)) = None"
  using intact_add_all[OF intact_new] by (simp add: intact_def)

lemma length_entries_add_all:
  "length (entries (add_all dg (new_chain cid) es)) = length es"
  by (simp add: length_add_all new_chain_def)

text \<open>
  Claim C4. After any number \<open>N\<close> of appends to a fresh ledger, \<open>verify_chain\<close> reports
  the ledger valid with \<open>total_entries = N\<close>, and every entry's \<open>previous_hash\<close> is the
  \<open>entry_hash\<close> of the entry before it (\<open>None\<close> for the first entry). This holds for
  every digest and every sequence of appended entries.
\<close>

theorem append_then_verify:
  "valid (verify_chain dg (add_all dg (new_chain cid) es))
   \<and> total_entries (verify_chain dg (add_all dg (new_chain cid) es)) = length es
   \<and> length (entries (add_all dg (new_chain cid) es)) = length es
   \<and> (\<forall>i < length es.
        previous_hash (entries (add_all dg (new_chain cid) es) ! i) =
          (if i = 0 then None else entry_hash (entries (add_all dg (new_chain cid) es) ! (i - 1))))"
proof -
  let ?ch = "add_all dg (new_chain cid) es"
  have ok: "verify_loop dg None (entries ?ch) = None"
    by (rule verify_loop_add_all)
  have len: "length (entries ?ch) = length es"
    by (rule length_entries_add_all)
  from verify_chain_of_loop[OF ok] len verify_loop_linked[OF ok]
  show ?thesis by simp
qed

theorem append_then_verify_witness:
  "(1::nat) < length sample_entries
   \<and> valid (verify_chain sample_digest (add_all sample_digest (new_chain ''chain'') sample_entries))
   \<and> total_entries (verify_chain sample_digest
        (add_all sample_digest (new_chain ''chain'') sample_entries)) = 3
   \<and> previous_hash (entries (add_all sample_digest (new_chain ''chain'') sample_entries) ! 1) =
       entry_hash (entries (add_all sample_digest (new_chain ''chain'') sample_entries) ! 0)"
proof -
  have h: "(1::nat) < length sample_entries" by (simp add: sample_entries_def)
  have len: "length sample_entries = 3" by (simp add: sample_entries_def)
  from append_then_verify[of sample_digest "''chain''" sample_entries] h len
  show ?thesis by auto
qed

text \<open>
  Claim C10. Cutting the tail of a ledger built by appends is not noticed:
  \<open>verify_chain\<close> over the first \<open>k \<le> N\<close> entries still reports the ledger valid,
  with \<open>total_entries = k\<close>.
\<close>

theorem truncated_tail_verifies:
  "k \<le> length es \<Longrightarrow>
   valid (verify_chain dg (truncate_tail (add_all dg (new_chain cid) es) k))
   \<and> total_entries (verify_chain dg (truncate_tail (add_all dg (new_chain cid) es) k)) = k"
proof -
  assume k: "k \<le> length es"
  let ?ch = "add_all dg (new_chain cid) es"
  have ok: "verify_loop dg None (entries ?ch) = None"
    by (rule verify_loop_add_all)
  have len: "length (entries ?ch) = length es"
    by (rule length_entries_add_all)
  have "verify_loop dg None (entries (truncate_tail ?ch k)) = None"
    using verify_loop_take[OF ok] by (simp add: truncate_tail_def)
  from verify_chain_of_loop[OF this] k len show ?thesis by (simp add: truncate_tail_def)
qed

theorem truncated_tail_verifies_witness:
  "(2::nat) \<le> length sample_entries
   \<and> valid (verify_chain sample_digest
        (truncate_tail (add_all sample_digest (new_chain ''chain'') sample_entries) 2))
   \<and> total_entries (verify_chain sample_digest
        (truncate_tail (add_all sample_digest (new_chain ''chain'') sample_entries) 2)) = 2"
proof -
  have h: "(2::nat) \<le> length sample_entries" by (simp add: sample_entries_def)
  from truncated_tail_verifies[OF h, of sample_digest "''chain''"] h
  show ?thesis by simp
qed

lemma verify_loop_update:
  assumes "\<And>e. entry_id (f e) = entry_id e"
    and "\<And>e. previous_hash (f e) = previous_hash e"
    and "\<And>e. entry_hash (f e) = entry_hash e"
    and "\<And>e. compute_hash dg (f e) = compute_hash dg e"
  shows "verify_loop dg prev (es[i := f (es ! i)]) = verify_loop dg prev es"
  using assms by (induction es arbitrary: prev i) (simp_all split: nat.splits)

text \<open>
  Claim C1. The claim is that changing any single field of an appended entry makes
  \<open>verify_chain\<close> report the ledger invalid at that entry. The code does not do this:
  \<open>compute_hash\<close> covers seven fields only, so for every digest, every ledger built by
  appends and every position \<open>i\<close>, overwriting \<open>description\<close>, \<open>user_id\<close>, \<open>level\<close>
  and \<open>success\<close> of entry \<open>i\<close> with any values leaves \<open>verify_chain\<close> reporting a
  valid ledger with no \<open>broken_at\<close>.
\<close>

theorem unhashed_field_tampering_undetected:
  "i < length es \<Longrightarrow>
   valid (verify_chain dg (tamper (add_all dg (new_chain cid) es) i
            (\<lambda>e. e\<lparr>description := d, user_id := u, level := l, success := s\<rparr>)))
   \<and> broken_at (verify_chain dg (tamper (add_all dg (new_chain cid) es) i
            (\<lambda>e. e\<lparr>description := d, user_id := u, level := l, success := s\<rparr>))) = None"
proof -
  let ?f = "\<lambda>e. e\<lparr>description := d, user_id := u, level := l, success := s\<rparr>"
  let ?ch = "add_all dg (new_chain cid) es"
  have "verify_loop dg None (entries (tamper ?ch i ?f)) = verify_loop dg None (entries ?ch)"
    unfolding tamper_def by (simp, rule verify_loop_update) (simp_all add: compute_hash_def)
  then have "verify_loop dg None (entries (tamper ?ch i ?f)) = None"
    by (simp add: verify_loop_add_all)
  from verify_chain_of_loop[OF this] show ?thesis by simp
qed

theorem unhashed_field_tampering_undetected_witness:
  "(0::nat) < length sample_entries
   \<and> description (entries (tamper (sample_chain sample_digest) 0
        (\<lambda>e. e\<lparr>description := ''forged'', user_id := Some ''mallory'', level := DEBUG, success := False\<rparr>)) ! 0)
       \<noteq> description (entries (sample_chain sample_digest) ! 0)
   \<and> valid (verify_chain sample_digest (tamper (sample_chain sample_digest) 0
        (\<lambda>e. e\<lparr>description := ''forged'', user_id := Some ''mallory'', level := DEBUG, success := False\<rparr>)))
   \<and> broken_at (verify_chain sample_digest (tamper (sample_chain sample_digest) 0
        (\<lambda>e. e\<lparr>description := ''forged'', user_id := Some ''mallory'', level := DEBUG, success := False\<rparr>))) = None"
proof -
  have h: "(0::nat) < length sample_entries" by (simp add: sample_entries_def)
  have d: "description (entries (tamper (sample_chain sample_digest) 0
        (\<lambda>e. e\<lparr>description := ''forged'', user_id := Some ''mallory'', level := DEBUG, success := False\<rparr>)) ! 0)
       \<noteq> description (entries (sample_chain sample_digest) ! 0)"
    by (simp add: tamper_def sample_chain_def sample_entries_def sample_entry_def entries_add
        new_chain_def finalize_def Let_def)
  from unhashed_field_tampering_undetected[OF h, of sample_digest "''chain''"] h d
  show ?thesis unfolding sample_chain_def by simp
qed


section \<open>The tool runtime: permission enforcement\<close>

text \<open>
  Claim C3. When \<open>ToolExecutor.execute\<close> is called for a registered tool whose declared
  permissions are not all among the permissions granted in the context, it returns a
  \<open>ToolResult\<close> with \<open>success = False\<close> whose error lists the missing permissions
  (a non-empty set), and the tool is not touched: the only call made is the audit
  callback (if one is set), so neither \<open>execute\<close> nor \<open>validate_input\<close> of the tool is
  invoked, and the registry is left as it was.
\<close>

theorem permission_denied_never_executes:
  "get_tool (ex_registry ex) tool_id = Some t \<Longrightarrow>
   \<not> set (tm_permissions (t_metadata t)) \<subseteq> set (tc_permissions context) \<Longrightarrow>
   fst (execute ex tool_id context params timeout) =
     Inr (failure (PermissionDenied
            (set (tm_permissions (t_metadata t)) - set (tc_permissions context))))
   \<and> tr_success (failure (PermissionDenied
            (set (tm_permissions (t_metadata t)) - set (tc_permissions context)))) = False
   \<and> set (tm_permissions (t_metadata t)) - set (tc_permissions context) \<noteq> {}
   \<and> ex_log (snd (execute ex tool_id context params timeout)) =
       ex_log ex @ (if ex_audit_callback ex
                    then [Called_audit tool_id False (Some (PermissionDenied
                            (set (tm_permissions (t_metadata t)) - set (tc_permissions context))))]
                    else [])
   \<and> Called_execute tool_id \<notin> set (ex_log (snd (execute ex tool_id context params timeout)))
        - set (ex_log ex)
   \<and> ex_registry (snd (execute ex tool_id context params timeout)) = ex_registry ex"
  by (auto simp add: execute_def check_permission_def Let_def audit_def failure_def)

theorem permission_denied_never_executes_witness:
  "get_tool (ex_registry sample_executor) ''db.write'' = Some sample_tool
   \<and> \<not> set (tm_permissions (t_metadata sample_tool)) \<subseteq> set (tc_permissions sample_context)
   \<and> fst (execute sample_executor ''db.write'' sample_context [] None) =
       Inr (failure (PermissionDenied {DATABASE_WRITE}))
   \<and> ex_log (snd (execute sample_executor ''db.write'' sample_context [] None)) =
       [Called_audit ''db.write'' False (Some (PermissionDenied {DATABASE_WRITE}))]"
proof -
  have h1: "get_tool (ex_registry sample_executor) ''db.write'' = Some sample_tool"
    by (simp add: get_tool_def sample_executor_def)
  have h2: "\<not> set (tm_permissions (t_metadata sample_tool)) \<subseteq> set (tc_permissions sample_context)"
    by (simp add: sample_tool_def sample_context_def)
  have m: "set (tm_permissions (t_metadata sample_tool)) - set (tc_permissions sample_context)
             = {DATABASE_WRITE}"
    by (auto simp add: sample_tool_def sample_context_def)
  have a: "ex_audit_callback sample_executor" "ex_log sample_executor = []"
    by (simp_all add: sample_executor_def)
  from permission_denied_never_executes[OF h1 h2, of "[]" None] h1 h2 m a
  show ?thesis by simp
qed


section \<open>Mode decision: the standard cascade\<close>





section \<open>The security gate: exceptions and fail-fast\<close>


lemma fold_results_grow:
  "\<exists>rest. ps_results (fold (run_phase_step ff ph) cs st) = ps_results st @ rest"
proof (induction cs arbitrary: st)
  case Nil
  then show ?case by simp
next
  case (Cons c cs)
  have "\<exists>r1. ps_results (run_phase_step ff ph c st) = ps_results st @ r1"
    by (cases "sc_check c (ps_context st)") (auto simp add: run_phase_step_def split: sum.splits)
  then obtain r1 where r1: "ps_results (run_phase_step ff ph c st) = ps_results st @ r1" ..
  from Cons[of "run_phase_step ff ph c st"] obtain r2 where
    "ps_results (fold (run_phase_step ff ph) cs (run_phase_step ff ph c st)) =
       ps_results (run_phase_step ff ph c st) @ r2" by blast
  with r1 show ?case by simp
qed

lemma run_phase_state_split:
  "checks sys = pre @ c # post \<Longrightarrow>
   run_phase_state sys ph context =
     fold (run_phase_step (fail_fast sys) ph) post
       (run_phase_step (fail_fast sys) ph c (run_phase_from sys ph pre (phase_start context)))"
  by (simp add: run_phase_state_def run_phase_from_def)

text \<open>
  Claim C6. When the \<open>check\<close> method of a registered check raises an exception during
  \<open>run_phase\<close> (the check belongs to the phase, is enabled, and the loop has reached
  it), \<open>run_phase\<close> still returns its result list, and that list holds, right after the
  results gathered before, a result for this check that did not pass, has severity
  \<open>CRITICAL\<close> and carries the check's id. Exceptions here are instances of
  \<open>Exception\<close>, which is what the handler of the source catches.
\<close>

theorem exception_becomes_critical_failure:
  assumes "checks sys = pre @ c # post"
    and "\<not> ps_stopped (run_phase_from sys ph pre (phase_start context))"
    and "sc_phase c = ph" and "sc_enabled c"
    and "fst (sc_check c (ps_context (run_phase_from sys ph pre (phase_start context)))) = Inl e"
  shows "(\<exists>rest. run_phase sys ph context =
            ps_results (run_phase_from sys ph pre (phase_start context))
              @ exception_result c ph e # rest)
         \<and> cr_check_id (exception_result c ph e) = sc_check_id c
         \<and> \<not> cr_passed (exception_result c ph e)
         \<and> cr_severity (exception_result c ph e) = CRITICAL"
proof -
  let ?st = "run_phase_from sys ph pre (phase_start context)"
  let ?ff = "fail_fast sys"
  have stp: "ps_results (run_phase_step ?ff ph c ?st) = ps_results ?st @ [exception_result c ph e]"
    using assms(2-5) by (auto simp add: run_phase_step_def split: prod.splits sum.splits)
  from fold_results_grow[of ?ff ph post "run_phase_step ?ff ph c ?st"] obtain rest where
    "ps_results (fold (run_phase_step ?ff ph) post (run_phase_step ?ff ph c ?st)) =
       ps_results (run_phase_step ?ff ph c ?st) @ rest" by blast
  with stp run_phase_state_split[OF assms(1), of ph "context"]
  have "run_phase sys ph context = ps_results ?st @ exception_result c ph e # rest"
    by (simp add: run_phase_def)
  then show ?thesis by (auto simp add: exception_result_def)
qed

theorem exception_becomes_critical_failure_witness:
  "checks raising_gate = [] @ raising_check ''R'' ENTRY # [failing_check ''B'' HIGH ENTRY]
   \<and> fst (sc_check (raising_check ''R'' ENTRY)
         (ps_context (run_phase_from raising_gate ENTRY [] (phase_start [])))) = Inl ''KeyError''
   \<and> (\<exists>rest. run_phase raising_gate ENTRY [] =
         ps_results (run_phase_from raising_gate ENTRY [] (phase_start []))
           @ exception_result (raising_check ''R'' ENTRY) ENTRY ''KeyError'' # rest)"
proof -
  have h1: "checks raising_gate = [] @ raising_check ''R'' ENTRY # [failing_check ''B'' HIGH ENTRY]"
    by (simp add: raising_gate_def)
  have h2: "\<not> ps_stopped (run_phase_from raising_gate ENTRY [] (phase_start []))"
    by (simp add: run_phase_from_def phase_start_def)
  have h3: "sc_phase (raising_check ''R'' ENTRY) = ENTRY" by (simp add: raising_check_def)
  have h4: "sc_enabled (raising_check ''R'' ENTRY)" by (simp add: raising_check_def)
  have h5: "fst (sc_check (raising_check ''R'' ENTRY)
         (ps_context (run_phase_from raising_gate ENTRY [] (phase_start [])))) = Inl ''KeyError''"
    by (simp add: raising_check_def)
  from exception_becomes_critical_failure[OF h1 h2 h3 h4 h5] h1 h5 show ?thesis by simp
qed






section \<open>Sensitivity analysis: the score\<close>










section \<open>Read-only SQL: the check and the runner\<close>
















section \<open>The overwrite layer: fallbacks\<close>

text \<open>
  Claim C8. The claim is that a placeholder whose resolution fails is, when its rule
  declares a fallback, replaced by the fallback with a result that counts as a success,
  and is otherwise left as it is with a failed result. The code does the first on the
  path where the query raises (second rule below: the runner refuses \<open>SHOW TABLES\<close>,
  the output holds the fallback, the result is a success). On the path where the rule's
  data source is not registered (first rule below) the output holds the fallback as
  well, but the result is recorded as failed. And a failed placeholder without a
  fallback does not always stay as it is: \<open>$a.b\<close> fails, and the replacement of the later
  placeholder \<open>$a\<close> by its context value rewrites it.
\<close>

theorem fallback_substituted_but_result_failed:
  "final_output (overwrite sample_overwriter ''Balance: {{user.balance}}'' None) = ''Balance: N/A''
   \<and> map or_success (results (overwrite sample_overwriter ''Balance: {{user.balance}}'' None)) = [False]
   \<and> final_output (overwrite sample_overwriter ''Level: {{user.level}}'' None) = ''Level: N/A''
   \<and> map or_success (results (overwrite sample_overwriter ''Level: {{user.level}}'' None)) = [True]
   \<and> final_output (overwrite new_overwriter ''$a.b $a'' (Some [(''a'', PStr ''X'')])) = ''X.b X''
   \<and> map or_success (results (overwrite new_overwriter ''$a.b $a'' (Some [(''a'', PStr ''X'')])))
         = [False, True]"
  by code_simp

end
